theory Spec2Isabelle
  imports Main "HOL-Library.AList"
begin

section \<open>Python values, exceptions and the effect log\<close>

text \<open>
  The endpoint of \<^verbatim>\<open>backend/app/server.py\<close> handles decoded JSON and plain Python
  containers. \<open>pyval\<close> is that universe: \<open>None\<close>, booleans, integers, strings,
  lists and dictionaries (an association list, first binding wins, insertion order
  kept), and \<open>PObj\<close> for a reference to an object that is not plain data (the two
  callback handlers stored under \<open>config["callbacks"]\<close>).
\<close>

datatype pyval =
    PNone
  | PBool bool
  | PInt int
  | PStr string
  | PList "pyval list"
  | PDict "(string \<times> pyval) list"
  | PObj string

text \<open>
  The exceptions that the endpoint raises, catches or lets pass. \<open>OtherException\<close> is
  any further instance of \<open>Exception\<close> with its message text; \<open>OtherBaseException\<close>
  is an instance of \<open>BaseException\<close> outside \<open>Exception\<close> (a cancellation, a
  keyboard interrupt), which \<^verbatim>\<open>except Exception\<close> does not catch.
\<close>

datatype exn =
    JSONDecodeError
  | ValidationError pyval
  | RequestValidationError pyval "pyval option"
  | KeyError string
  | TypeError
  | OtherException string
  | OtherBaseException string

fun is_Exception :: "exn \<Rightarrow> bool" where
  "is_Exception (OtherBaseException _) = False"
| "is_Exception _ = True"

text \<open>\<open>v[k]\<close> for a string key: only a dictionary can be subscripted by a string.\<close>

fun subscript :: "pyval \<Rightarrow> string \<Rightarrow> exn + pyval" where
  "subscript (PDict kvs) k = (case map_of kvs k of None \<Rightarrow> Inl (KeyError k) | Some v \<Rightarrow> Inr v)"
| "subscript _ k = Inl TypeError"

text \<open>\<open>v[k] = x\<close> for a string key.\<close>

fun setitem :: "pyval \<Rightarrow> string \<Rightarrow> pyval \<Rightarrow> exn + pyval" where
  "setitem (PDict kvs) k x = Inr (PDict (AList.update k x kvs))"
| "setitem _ k x = Inl TypeError"

text \<open>\<open>**m\<close> inside a dictionary display: \<open>m\<close> has to be a mapping.\<close>

fun unpack_mapping :: "pyval \<Rightarrow> exn + (string \<times> pyval) list" where
  "unpack_mapping (PDict kvs) = Inr kvs"
| "unpack_mapping _ = Inl TypeError"

text \<open>The truth value that \<^verbatim>\<open>if v:\<close> tests.\<close>

fun truthy :: "pyval \<Rightarrow> bool" where
  "truthy PNone = False"
| "truthy (PBool b) = b"
| "truthy (PInt n) = (n \<noteq> 0)"
| "truthy (PStr s) = (s \<noteq> [])"
| "truthy (PList xs) = (xs \<noteq> [])"
| "truthy (PDict kvs) = (kvs \<noteq> [])"
| "truthy (PObj _) = True"

text \<open>
  \<open>a + b\<close>: numbers add (a boolean counts as 0 or 1), strings and lists concatenate,
  every other pair of operands is a \<open>TypeError\<close>.
\<close>

fun py_add :: "pyval \<Rightarrow> pyval \<Rightarrow> exn + pyval" where
  "py_add (PList xs) (PList ys) = Inr (PList (xs @ ys))"
| "py_add (PStr s) (PStr t) = Inr (PStr (s @ t))"
| "py_add (PInt m) (PInt n) = Inr (PInt (m + n))"
| "py_add (PInt m) (PBool b) = Inr (PInt (m + (if b then 1 else 0)))"
| "py_add (PBool a) (PInt n) = Inr (PInt ((if a then 1 else 0) + n))"
| "py_add (PBool a) (PBool b) = Inr (PInt ((if a then 1 else 0) + (if b then 1 else 0)))"
| "py_add _ _ = Inl TypeError"

section \<open>The handoff channel and the stream handler\<close>

text \<open>
  What travels on the channel: an output chunk, or the exception object that
  \<open>consume_astream\<close> sends when the agent fails (\<open>isinstance(chunk, BaseException)\<close>
  tells them apart on the reading side).
\<close>

datatype item = Chunk pyval | Exc exn

datatype chan_op = Send item | Close

text \<open>
  Modelled from the spec: \<open>StreamMessagesHandler\<close> of \<^verbatim>\<open>app/stream.py\<close> and the two
  ends of its channel are not among the source files. The spec describes the handler as
  holding the run input (the message history) and owning the producing end of a
  single-producer, single-consumer, order-preserving channel with an explicit close
  signal. \<open>send_stream\<close> is the log of the operations performed on the producing end;
  \<open>receive_stream\<close> delivers the items sent before the close, in the order sent, and
  tells whether the close was reached (without it the reader waits for ever).
\<close>

record StreamMessagesHandler =
  messages :: pyval
  send_stream :: "chan_op list"

definition new_StreamMessagesHandler :: "pyval \<Rightarrow> StreamMessagesHandler" where
  "new_StreamMessagesHandler msgs = \<lparr>messages = msgs, send_stream = []\<rparr>"

definition send :: "StreamMessagesHandler \<Rightarrow> item \<Rightarrow> StreamMessagesHandler" where
  "send streamer x = streamer\<lparr>send_stream := send_stream streamer @ [Send x]\<rparr>"

definition aclose :: "StreamMessagesHandler \<Rightarrow> StreamMessagesHandler" where
  "aclose streamer = streamer\<lparr>send_stream := send_stream streamer @ [Close]\<rparr>"

fun receive_stream :: "chan_op list \<Rightarrow> item list \<times> bool" where
  "receive_stream [] = ([], False)"
| "receive_stream (Close # ops) = ([], True)"
| "receive_stream (Send x # ops) = (case receive_stream ops of (xs, closed) \<Rightarrow> (x # xs, closed))"

section \<open>The background task \<open>consume_astream\<close>\<close>

text \<open>
  One execution of \<open>agent.astream(input_, config)\<close>: the chunks it yields, in order,
  and how the iteration ends (\<open>None\<close>: exhausted normally; \<open>Some e\<close>: \<open>e\<close> is raised
  after the last of the chunks).
\<close>

record agent_run =
  chunks :: "pyval list"
  raised :: "exn option"

text \<open>
  \<^verbatim>\<open>
  async def consume_astream() -> None:
      try:
          async for chunk in agent.astream(input_, config):
              await streamer.send_stream.send(chunk)
      except Exception as e:
          await streamer.send_stream.send(e)
      finally:
          await streamer.send_stream.aclose()
  \<close>
  The result is the handler after the task has run and the task's own outcome, which
  \<open>await task\<close> observes: \<open>None\<close> when the coroutine returned, \<open>Some e\<close> when \<open>e\<close>
  escaped it (an exception outside \<open>Exception\<close> is not caught, the \<open>finally\<close> block
  still runs).
\<close>

definition consume_astream :: "agent_run \<Rightarrow> StreamMessagesHandler \<Rightarrow> StreamMessagesHandler \<times> exn option" where
  "consume_astream ar streamer =
     (let s1 = foldl (\<lambda>s chunk. send s (Chunk chunk)) streamer (chunks ar) in
      case raised ar of
        None \<Rightarrow> (aclose s1, None)
      | Some e \<Rightarrow>
          if is_Exception e then (aclose (send s1 (Exc e)), None)
          else (aclose s1, Some e))"

section \<open>The outbound event sequencer \<open>_stream\<close>\<close>

text \<open>
  The libraries and collaborators the endpoint calls are parameters: the storage
  lookups; the agent's input schema (\<open>agent.get_input_schema(config)\<close> may raise and
  otherwise gives the schema's \<open>validate\<close> followed by \<open>_unpack_input\<close>);
  \<open>orjson.dumps\<close>; the chunk serialiser, as the text that \<open>serializer.dumps(chunk)\<close>
  gives (\<open>serializer_dumps\<close>) and the exception that the call raises instead for a chunk
  it cannot encode (\<open>serializer_raises\<close>, \<open>None\<close> for a chunk it encodes); langserve's
  \<open>_get_base_run_id_as_str\<close>, which reads the run identifier off the aggregator's
  callback events; and the outcome that \<open>agent.ainvoke\<close> has when the framework runs
  it as a background task, after the response. \<open>assistant_first\<close> is the scheduler's
  choice when both storage lookups of \<open>asyncio.gather\<close> fail: whose exception is
  propagated.
\<close>

record env =
  get_assistant :: "string \<Rightarrow> pyval \<Rightarrow> exn + pyval"
  get_thread_messages :: "string \<Rightarrow> pyval \<Rightarrow> exn + pyval"
  get_input_schema :: "pyval \<Rightarrow> exn + (pyval \<Rightarrow> exn + pyval)"
  orjson_dumps :: "pyval \<Rightarrow> string"
  serializer_dumps :: "pyval \<Rightarrow> string"
  serializer_raises :: "pyval \<Rightarrow> exn option"
  get_base_run_id_as_str :: "pyval list \<Rightarrow> string"
  agent_ainvoke :: "pyval \<Rightarrow> pyval \<Rightarrow> exn + pyval"
  assistant_first :: bool

text \<open>A server-sent event as the generator yields it: a dictionary with the key
  \<open>"event"\<close> and, except for the end event, the key \<open>"data"\<close>.\<close>

record sse =
  event :: string
  data :: "string option"

definition error_event :: "env \<Rightarrow> sse" where
  "error_event env =
     \<lparr>event = ''error'',
      data = Some (orjson_dumps env
        (PDict [(''status_code'', PInt 500), (''message'', PStr ''Internal Server Error'')]))\<rparr>"

definition metadata_event :: "env \<Rightarrow> pyval list \<Rightarrow> sse" where
  "metadata_event env callback_events =
     \<lparr>event = ''metadata'',
      data = Some (orjson_dumps env
        (PDict [(''run_id'', PStr (get_base_run_id_as_str env callback_events))]))\<rparr>"

text \<open>The data event of a chunk that the serialiser encodes.\<close>

definition data_event :: "env \<Rightarrow> pyval \<Rightarrow> sse" where
  "data_event env chunk = \<lparr>event = ''data'', data = Some (serializer_dumps env chunk)\<rparr>"

definition end_event :: sse where
  "end_event = \<lparr>event = ''end'', data = None\<rparr>"

text \<open>
  What the generator does, step by step: it yields an event, awaits the task, raises,
  finishes (\<open>StopAsyncIteration\<close>), or stays suspended on a channel that is never
  closed.
\<close>

datatype action = Emit sse | AwaitTask | Raise exn | StopAsyncIteration | Blocked

text \<open>
  \<^verbatim>\<open>
  async def _stream() -> AsyncIterator[dict]:
      has_sent_metadata = False
      async for chunk in streamer.receive_stream:
          if isinstance(chunk, BaseException):
              yield {"event": "error", "data": orjson.dumps(
                  {"status_code": 500, "message": "Internal Server Error"}).decode()}
              raise chunk
          else:
              if not has_sent_metadata and event_aggregator.callback_events:
                  yield {"event": "metadata", "data": orjson.dumps(
                      {"run_id": _get_base_run_id_as_str(event_aggregator)}).decode()}
                  has_sent_metadata = True
              yield {"data": serializer.dumps(chunk).decode("utf-8"), "event": "data"}
      yield {"event": "end"}
      await task
  \<close>
  The loop reads the items of the channel; each item comes with the value that
  \<open>event_aggregator.callback_events\<close> has at the moment the item is handled (the
  aggregator is filled by the engine's callbacks, concurrently with the loop).
  \<open>task\<close> is the outcome of the background task and \<open>closed\<close> tells whether the
  channel is closed after the items. The dictionary of the data event is built before
  it is yielded: when \<open>serializer.dumps(chunk)\<close> raises, the exception leaves the
  generator at that point, after the metadata event if one was due.
\<close>

fun stream_loop :: "env \<Rightarrow> exn option \<Rightarrow> bool \<Rightarrow> bool \<Rightarrow> (item \<times> pyval list) list \<Rightarrow> action list" where
  "stream_loop env task closed has_sent_metadata [] =
     (if closed then
        Emit end_event # AwaitTask #
          (case task of None \<Rightarrow> [StopAsyncIteration] | Some e \<Rightarrow> [Raise e])
      else [Blocked])"
| "stream_loop env task closed has_sent_metadata ((Exc e, callback_events) # rest) =
     [Emit (error_event env), Raise e]"
| "stream_loop env task closed has_sent_metadata ((Chunk c, callback_events) # rest) =
     (if \<not> has_sent_metadata \<and> callback_events \<noteq> [] then
        Emit (metadata_event env callback_events) #
          (case serializer_raises env c of
             Some e \<Rightarrow> [Raise e]
           | None \<Rightarrow> Emit (data_event env c) # stream_loop env task closed True rest)
      else
        (case serializer_raises env c of
           Some e \<Rightarrow> [Raise e]
         | None \<Rightarrow> Emit (data_event env c) # stream_loop env task closed has_sent_metadata rest))"

definition stream :: "env \<Rightarrow> exn option \<Rightarrow> bool \<Rightarrow> (item \<times> pyval list) list \<Rightarrow> action list" where
  "stream env task closed reads = stream_loop env task closed False reads"

text \<open>The events among the actions: what the HTTP client observes.\<close>

fun events :: "action list \<Rightarrow> sse list" where
  "events [] = []"
| "events (Emit e # acts) = e # events acts"
| "events (_ # acts) = events acts"

text \<open>How many times the task handle is awaited.\<close>

fun awaits :: "action list \<Rightarrow> nat" where
  "awaits [] = 0"
| "awaits (AwaitTask # acts) = Suc (awaits acts)"
| "awaits (_ # acts) = awaits acts"

text \<open>
  The consumer of the generator (the event-source response) asks for one event at a
  time. \<open>drive n acts\<close> is what the generator has done when the consumer has asked
  \<open>n\<close> times and then dropped it: everything up to the \<open>n\<close>-th yield, or the whole
  run when the generator ends before.
\<close>

fun drive :: "nat \<Rightarrow> action list \<Rightarrow> action list" where
  "drive 0 acts = []"
| "drive (Suc n) [] = []"
| "drive (Suc n) (Emit e # acts) = Emit e # drive n acts"
| "drive (Suc n) (a # acts) = a # drive (Suc n) acts"

text \<open>
  A whole streaming run: the task writes the channel, the generator reads it.
  \<open>seen i\<close> is the content of \<open>event_aggregator.callback_events\<close> when the generator
  handles the \<open>i\<close>-th item.
\<close>

definition observe :: "(nat \<Rightarrow> pyval list) \<Rightarrow> item list \<Rightarrow> (item \<times> pyval list) list" where
  "observe seen xs = zip xs (map seen [0..<length xs])"

definition streaming_run :: "env \<Rightarrow> (nat \<Rightarrow> pyval list) \<Rightarrow> agent_run \<Rightarrow> StreamMessagesHandler \<Rightarrow> action list" where
  "streaming_run env seen ar streamer =
     (case consume_astream ar streamer of
        (streamer', task) \<Rightarrow>
          (case receive_stream (send_stream streamer') of
             (xs, closed) \<Rightarrow> stream env task closed (observe seen xs)))"

section \<open>The endpoint \<open>create_run_endpoint\<close>\<close>

text \<open>
  What the endpoint does to the world before it returns: a storage lookup handed to
  the executor, the background task started with \<open>asyncio.create_task\<close> (it runs
  \<open>consume_astream\<close> over \<open>agent.astream(input_, config)\<close>), or
  \<open>agent.ainvoke(input_, config)\<close> registered with \<open>background_tasks.add_task\<close>.
\<close>

datatype effect =
    RunInExecutor string "pyval list"
  | CreateTask pyval pyval
  | AddBackgroundTask pyval pyval

fun is_task :: "effect \<Rightarrow> bool" where
  "is_task (RunInExecutor _ _) = False"
| "is_task (CreateTask _ _) = True"
| "is_task (AddBackgroundTask _ _) = True"

text \<open>A computation of the endpoint: the effects performed so far, and either the
  exception raised or the value.\<close>

type_synonym 'a io = "effect list \<times> (exn + 'a)"

definition ret :: "'a \<Rightarrow> 'a io" where
  "ret x = ([], Inr x)"

definition lift :: "exn + 'a \<Rightarrow> 'a io" where
  "lift r = ([], r)"

definition log :: "effect \<Rightarrow> unit io" where
  "log eff = ([eff], Inr ())"

definition bind :: "'a io \<Rightarrow> ('a \<Rightarrow> 'b io) \<Rightarrow> 'b io" where
  "bind m f =
     (case m of
        (l, Inl e) \<Rightarrow> (l, Inl e)
      | (l, Inr x) \<Rightarrow> (case f x of (l', r) \<Rightarrow> (l @ l', r)))"

definition sbind :: "exn + 'a \<Rightarrow> ('a \<Rightarrow> exn + 'b) \<Rightarrow> exn + 'b" where
  "sbind r f = (case r of Inl e \<Rightarrow> Inl e | Inr x \<Rightarrow> f x)"

text \<open>The request: its cookies and the outcome of \<open>await request.json()\<close>.\<close>

record request =
  cookies :: "(string \<times> string) list"
  json :: "exn + pyval"

text \<open>What the endpoint returns: the event-source response over the generator
  \<open>_stream()\<close> of the given handler, or a plain dictionary.\<close>

datatype response = EventSourceResponse StreamMessagesHandler | Dict pyval

text \<open>
  \<^verbatim>\<open>
  def attach_user_id_to_config(config, request):
      config["configurable"]["user_id"] = request.cookies["opengpts_user_id"]
      return config
  \<close>
  The right-hand side is evaluated first. The inner dictionary is updated in place,
  so the outer one sees the new entry.
\<close>

definition attach_user_id_to_config :: "pyval \<Rightarrow> request \<Rightarrow> exn + pyval" where
  "attach_user_id_to_config config req =
     (case map_of (cookies req) ''opengpts_user_id'' of
        None \<Rightarrow> Inl (KeyError ''opengpts_user_id'')
      | Some user_id \<Rightarrow>
          sbind (subscript config ''configurable'') (\<lambda>configurable.
          sbind (setitem configurable ''user_id'' (PStr user_id)) (\<lambda>configurable'.
          setitem config ''configurable'' configurable')))"

text \<open>The dictionary that a display builds from unpacked items: later keys overwrite.\<close>

definition dict_of_items :: "(string \<times> pyval) list \<Rightarrow> (string \<times> pyval) list" where
  "dict_of_items kvs = foldl (\<lambda>d (k, v). AList.update k v d) [] kvs"

text \<open>Lines 81 to 84: the body, or the validation error for malformed JSON.\<close>

definition request_json :: "request \<Rightarrow> pyval io" where
  "request_json req =
     (case json req of
        Inl JSONDecodeError \<Rightarrow>
          lift (Inl (RequestValidationError (PList [PStr ''Invalid JSON body'']) None))
      | Inl e \<Rightarrow> lift (Inl e)
      | Inr body \<Rightarrow> ret body)"

text \<open>\<open>asyncio.gather\<close> of two awaitables: both results, or the exception of the one
  that fails (of the one that fails first when both do).\<close>

fun gather :: "bool \<Rightarrow> exn + 'a \<Rightarrow> exn + 'b \<Rightarrow> exn + ('a \<times> 'b)" where
  "gather first_wins (Inr x) (Inr y) = Inr (x, y)"
| "gather first_wins (Inl e) (Inr y) = Inl e"
| "gather first_wins (Inr x) (Inl e) = Inl e"
| "gather first_wins (Inl e1) (Inl e2) = Inl (if first_wins then e1 else e2)"

text \<open>Lines 85 to 92: the assistant and the thread's state, looked up in the executor.
  Each argument list is evaluated, and the call submitted, before the next one.\<close>

definition gather_lookups :: "env \<Rightarrow> string \<Rightarrow> pyval \<Rightarrow> (pyval \<times> pyval) io" where
  "gather_lookups env opengpts_user_id body =
     bind (lift (subscript body ''assistant_id'')) (\<lambda>aid.
     bind (log (RunInExecutor ''get_assistant'' [PStr opengpts_user_id, aid])) (\<lambda>_.
     bind (lift (subscript body ''thread_id'')) (\<lambda>tid.
     bind (log (RunInExecutor ''get_thread_messages'' [PStr opengpts_user_id, tid])) (\<lambda>_.
     lift (gather (assistant_first env)
       (get_assistant env opengpts_user_id aid)
       (get_thread_messages env opengpts_user_id tid))))))"

text \<open>Lines 93 to 103: the run's configuration.\<close>

definition make_config :: "pyval \<Rightarrow> pyval \<Rightarrow> request \<Rightarrow> exn + pyval" where
  "make_config assistant body req =
     sbind (subscript assistant ''config'') (\<lambda>c1.
     sbind (unpack_mapping c1) (\<lambda>outer.
     sbind (subscript assistant ''config'') (\<lambda>c2.
     sbind (subscript c2 ''configurable'') (\<lambda>c3.
     sbind (unpack_mapping c3) (\<lambda>inner.
     sbind (subscript body ''thread_id'') (\<lambda>tid.
     sbind (subscript body ''assistant_id'') (\<lambda>aid.
     attach_user_id_to_config
       (PDict (AList.update ''configurable''
          (PDict (AList.update ''assistant_id'' aid
             (AList.update ''thread_id'' tid (dict_of_items inner))))
          (dict_of_items outer)))
       req)))))))"

text \<open>Lines 104 to 107: the input is validated against the agent's schema; a
  \<open>ValidationError\<close> raised in the \<open>try\<close> block becomes a
  \<open>RequestValidationError\<close>, any other exception passes.\<close>

definition validate :: "env \<Rightarrow> pyval \<Rightarrow> pyval \<Rightarrow> exn + pyval" where
  "validate env config body =
     (case sbind (get_input_schema env config) (\<lambda>schema_validate.
           sbind (subscript body ''input'') (\<lambda>raw. schema_validate raw)) of
        Inl (ValidationError errors) \<Rightarrow> Inl (RequestValidationError errors (Some body))
      | Inl e \<Rightarrow> Inl e
      | Inr input' \<Rightarrow> Inr input')"

text \<open>
  The endpoint, lines 76 to 169. The streaming branch builds the handler from
  \<open>state["messages"] + input_["messages"]\<close>, stores the two callbacks in the
  configuration, starts the task and returns the response over \<open>_stream()\<close>; the
  other branch registers \<open>agent.ainvoke\<close> and returns \<open>{"status": "ok"}\<close>.
\<close>

definition create_run_endpoint :: "env \<Rightarrow> request \<Rightarrow> string \<Rightarrow> response io" where
  "create_run_endpoint env req opengpts_user_id =
     bind (request_json req) (\<lambda>body.
     bind (gather_lookups env opengpts_user_id body) (\<lambda>(assistant, state).
     bind (lift (make_config assistant body req)) (\<lambda>config.
     bind (lift (validate env config body)) (\<lambda>input'.
     bind (lift (subscript body ''stream'')) (\<lambda>s.
       if truthy s then
         bind (lift (subscript state ''messages'')) (\<lambda>prior.
         bind (lift (subscript input' ''messages'')) (\<lambda>new.
         bind (lift (py_add prior new)) (\<lambda>msgs.
         bind (lift (setitem config ''callbacks''
                 (PList [PObj ''streamer'', PObj ''event_aggregator'']))) (\<lambda>config'.
         bind (log (CreateTask input' config')) (\<lambda>_.
         ret (EventSourceResponse (new_StreamMessagesHandler msgs)))))))
       else
         bind (log (AddBackgroundTask input' config)) (\<lambda>_.
         ret (Dict (PDict [(''status'', PStr ''ok'')]))))))))"

section \<open>Auxiliary notions for the statements\<close>


text \<open>The events that the loop yields for a run of encodable chunks, each paired with
  the callback events seen when it is handled; \<open>h\<close> is \<open>has_sent_metadata\<close> on entry.\<close>

fun chunk_events :: "env \<Rightarrow> bool \<Rightarrow> (pyval \<times> pyval list) list \<Rightarrow> sse list" where
  "chunk_events env h [] = []"
| "chunk_events env h ((c, cb) # ps) =
     (if \<not> h \<and> cb \<noteq> [] then metadata_event env cb # data_event env c # chunk_events env True ps
      else data_event env c # chunk_events env h ps)"

text \<open>An exception object written to the channel.\<close>

fun is_failure_marker :: "chan_op \<Rightarrow> bool" where
  "is_failure_marker (Send (Exc _)) = True"
| "is_failure_marker _ = False"

text \<open>A chunk that \<open>serializer.dumps\<close> encodes without raising.\<close>

definition encodable :: "env \<Rightarrow> pyval \<Rightarrow> bool" where
  "encodable env chunk = (serializer_raises env chunk = None)"

text \<open>An item that the loop handles and goes on from: a chunk that is encoded.\<close>

fun handled :: "env \<Rightarrow> item \<times> pyval list \<Rightarrow> bool" where
  "handled env (Chunk c, callback_events) = encodable env c"
| "handled env (Exc e, callback_events) = False"

section \<open>A concrete environment\<close>

text \<open>
  Concrete collaborators for evaluating the model on examples: a serialiser to compact
  JSON text (enough for the values of the examples: no escapes), a schema that asks for a
  list under \<open>"messages"\<close>, an assistant with an empty configuration and a thread
  with three prior messages.
\<close>

fun demo_digits :: "nat \<Rightarrow> string" where
  "demo_digits n =
     (if n < 10 then [char_of (48 + n)]
      else demo_digits (n div 10) @ [char_of (48 + n mod 10)])"

declare demo_digits.simps [simp del]

fun demo_join :: "string list \<Rightarrow> string" where
  "demo_join [] = []"
| "demo_join [x] = x"
| "demo_join (x # y # ys) = x @ '','' @ demo_join (y # ys)"

definition demo_quote :: "string \<Rightarrow> string" where
  "demo_quote s = CHR 0x22 # s @ [CHR 0x22]"

fun demo_dumps :: "pyval \<Rightarrow> string" where
  "demo_dumps PNone = ''null''"
| "demo_dumps (PBool b) = (if b then ''true'' else ''false'')"
| "demo_dumps (PInt n) = (if n < 0 then CHR ''-'' # demo_digits (nat (- n)) else demo_digits (nat n))"
| "demo_dumps (PStr s) = demo_quote s"
| "demo_dumps (PList xs) = ''['' @ demo_join (map demo_dumps xs) @ '']''"
| "demo_dumps (PDict kvs) =
     ''{'' @ demo_join (map (\<lambda>(k, v). demo_quote k @ '':'' @ demo_dumps v) kvs) @ ''}''"
| "demo_dumps (PObj name) = demo_quote name"

definition demo_raises :: "pyval \<Rightarrow> exn option" where
  "demo_raises v =
     (case v of
        PInt n \<Rightarrow> if n < - (2 ^ 63) \<or> 2 ^ 64 \<le> n then Some TypeError else None
      | _ \<Rightarrow> None)"

definition demo_validate :: "pyval \<Rightarrow> exn + pyval" where
  "demo_validate raw =
     (case subscript raw ''messages'' of
        Inr (PList ms) \<Rightarrow> Inr (PDict [(''messages'', PList ms)])
      | _ \<Rightarrow> Inl (ValidationError (PList [PStr ''messages: a list is required''])))"

definition demo_assistant :: pyval where
  "demo_assistant = PDict [(''config'', PDict [(''configurable'', PDict [])])]"

definition demo_state :: pyval where
  "demo_state = PDict [(''messages'', PList [PStr ''m1'', PStr ''m2'', PStr ''m3''])]"

definition demo_env :: env where
  "demo_env =
     \<lparr>get_assistant = (\<lambda>user aid. Inr demo_assistant),
      get_thread_messages = (\<lambda>user tid. Inr demo_state),
      get_input_schema = (\<lambda>config. Inr demo_validate),
      orjson_dumps = demo_dumps,
      serializer_dumps = demo_dumps,
      serializer_raises = demo_raises,
      get_base_run_id_as_str = (\<lambda>callback_events. ''run-1''),
      agent_ainvoke = (\<lambda>input' config. Inl (OtherException ''boom'')),
      assistant_first = True\<rparr>"

definition demo_request :: "pyval \<Rightarrow> request" where
  "demo_request body = \<lparr>cookies = [(''opengpts_user_id'', ''u1'')], json = Inr body\<rparr>"

definition demo_body :: "(string \<times> pyval) list \<Rightarrow> pyval" where
  "demo_body rest = PDict ([(''assistant_id'', PStr ''a1''), (''thread_id'', PStr ''t1'')] @ rest)"

definition demo_lookups :: "effect list" where
  "demo_lookups =
     [RunInExecutor ''get_assistant'' [PStr ''u1'', PStr ''a1''],
      RunInExecutor ''get_thread_messages'' [PStr ''u1'', PStr ''t1'']]"

definition demo_config :: pyval where
  "demo_config =
     PDict [(''configurable'',
       PDict [(''thread_id'', PStr ''t1''), (''assistant_id'', PStr ''a1''),
              (''user_id'', PStr ''u1'')])]"

section \<open>Lemmas on the channel, the task and the generator\<close>

lemma events_append: "events (xs @ ys) = events xs @ events ys"
  by (induction xs rule: events.induct) simp_all

lemma events_map_Emit: "events (map Emit es) = es"
  by (induction es) simp_all

lemma awaits_append: "awaits (xs @ ys) = awaits xs + awaits ys"
  by (induction xs rule: awaits.induct) simp_all

lemma awaits_map_Emit: "awaits (map Emit es) = 0"
  by (induction es) simp_all

lemma foldl_send:
  "send_stream (foldl (\<lambda>s chunk. send s (Chunk chunk)) s cs) =
     send_stream s @ map (\<lambda>c. Send (Chunk c)) cs"
  by (induction cs arbitrary: s) (simp_all add: send_def)

lemma foldl_send_messages:
  "messages (foldl (\<lambda>s chunk. send s (Chunk chunk)) s cs) = messages s"
  by (induction cs arbitrary: s) (simp_all add: send_def)

lemma send_stream_send: "send_stream (send s x) = send_stream s @ [Send x]"
  by (simp add: send_def)

lemma send_stream_aclose: "send_stream (aclose s) = send_stream s @ [Close]"
  by (simp add: aclose_def)

lemma messages_send: "messages (send s x) = messages s"
  by (simp add: send_def)

lemma messages_aclose: "messages (aclose s) = messages s"
  by (simp add: aclose_def)

lemma receive_stream_sends:
  "receive_stream (map Send xs @ Close # ops) = (xs, True)"
  by (induction xs) simp_all

lemma consume_astream_ops:
  "send_stream (fst (consume_astream ar streamer)) =
     send_stream streamer @ map (\<lambda>c. Send (Chunk c)) (chunks ar) @
     (case raised ar of None \<Rightarrow> [] | Some e \<Rightarrow> if is_Exception e then [Send (Exc e)] else []) @
     [Close]"
  by (simp add: consume_astream_def Let_def foldl_send send_stream_send send_stream_aclose
      split: option.splits)

lemma consume_astream_task:
  "snd (consume_astream ar streamer) =
     (case raised ar of None \<Rightarrow> None | Some e \<Rightarrow> if is_Exception e then None else Some e)"
  by (simp add: consume_astream_def Let_def split: option.splits)

lemma consume_astream_messages: "messages (fst (consume_astream ar s)) = messages s"
  by (simp add: consume_astream_def Let_def foldl_send_messages messages_send messages_aclose
      split: option.splits)



lemma stream_loop_chunks_sent:
  "list_all (\<lambda>p. encodable env (fst p)) ps \<Longrightarrow>
   stream_loop env task closed True (map (\<lambda>(c, cb). (Chunk c, cb)) ps) =
     map (\<lambda>p. Emit (data_event env (fst p))) ps @ stream_loop env task closed True []"
proof (induction ps)
  case Nil
  then show ?case by simp
next
  case (Cons p ps)
  obtain c cb where p: "p = (c, cb)" by (cases p)
  with Cons show ?case by (simp add: encodable_def)
qed

lemma stream_loop_chunks:
  "list_all (\<lambda>p. encodable env (fst p)) ps \<Longrightarrow>
   stream_loop env task closed False (map (\<lambda>(c, cb). (Chunk c, cb)) ps) =
     map Emit
       (map (\<lambda>p. data_event env (fst p)) (takeWhile (\<lambda>p. snd p = []) ps) @
        (case dropWhile (\<lambda>p. snd p = []) ps of [] \<Rightarrow> [] | p # _ \<Rightarrow> [metadata_event env (snd p)]) @
        map (\<lambda>p. data_event env (fst p)) (dropWhile (\<lambda>p. snd p = []) ps)) @
     stream_loop env task closed True []"
proof (induction ps)
  case Nil
  then show ?case by simp
next
  case (Cons p ps)
  obtain c cb where p: "p = (c, cb)" by (cases p)
  from Cons.prems p have c: "serializer_raises env c = None" and ps: "list_all (\<lambda>p. encodable env (fst p)) ps"
    by (simp_all add: encodable_def)
  show ?case
  proof (cases "cb = []")
    case True
    with Cons.IH [OF ps] p c show ?thesis by simp
  next
    case False
    with p c show ?thesis by (simp add: stream_loop_chunks_sent [OF ps])
  qed
qed

lemma stream_loop_chunks_then:
  "list_all (\<lambda>p. encodable env (fst p)) ps \<Longrightarrow>
   stream_loop env task closed h (map (\<lambda>(c, cb). (Chunk c, cb)) ps @ rest) =
     map Emit (chunk_events env h ps) @
     stream_loop env task closed (h \<or> list_ex (\<lambda>p. snd p \<noteq> []) ps) rest"
proof (induction ps arbitrary: h)
  case Nil
  then show ?case by simp
next
  case (Cons p ps)
  obtain c cb where p: "p = (c, cb)" by (cases p)
  from Cons.prems p have c: "serializer_raises env c = None" and ps: "list_all (\<lambda>p. encodable env (fst p)) ps"
    by (simp_all add: encodable_def)
  show ?case using Cons.IH [OF ps, of True] Cons.IH [OF ps, of h] c by (simp add: p)
qed

lemma list_all_zip_fst:
  "list_all P cs \<Longrightarrow> list_all (\<lambda>p. P (fst p)) (zip cs ys)"
  by (auto simp add: list_all_iff dest: set_zip_leftD)

lemma chunk_events_data:
  "filter (\<lambda>x. event x = ''data'') (chunk_events env h ps) = map (\<lambda>p. data_event env (fst p)) ps"
  by (induction env h ps rule: chunk_events.induct)
     (simp_all add: data_event_def metadata_event_def)

lemma chunk_events_error:
  "filter (\<lambda>x. event x = ''error'') (chunk_events env h ps) = []"
  by (induction env h ps rule: chunk_events.induct)
     (simp_all add: data_event_def metadata_event_def)

lemma chunk_events_end:
  "filter (\<lambda>x. event x = ''end'') (chunk_events env h ps) = []"
  by (induction env h ps rule: chunk_events.induct)
     (simp_all add: data_event_def metadata_event_def)

lemma observe_chunks:
  "observe seen (map Chunk cs) =
     map (\<lambda>(c, cb). (Chunk c, cb)) (zip cs (map seen [0..<length cs]))"
  by (simp add: observe_def zip_map1)

lemma observe_snoc:
  "observe seen (map Chunk cs @ [x]) =
     map (\<lambda>(c, cb). (Chunk c, cb)) (zip cs (map seen [0..<length cs])) @ [(x, seen (length cs))]"
  by (simp add: observe_def zip_map1 zip_append1 take_map drop_map)

lemma map_fst_zip_seen: "map fst (zip cs (map seen [0..<length cs])) = cs"
  by simp

lemma streaming_run_unfold:
  "streaming_run env seen ar (new_StreamMessagesHandler msgs) =
     stream env (case raised ar of None \<Rightarrow> None | Some e \<Rightarrow> if is_Exception e then None else Some e) True
       (observe seen (map Chunk (chunks ar) @
          (case raised ar of None \<Rightarrow> [] | Some e \<Rightarrow> if is_Exception e then [Exc e] else [])))"
proof -
  obtain s' t where c: "consume_astream ar (new_StreamMessagesHandler msgs) = (s', t)"
    by (cases "consume_astream ar (new_StreamMessagesHandler msgs)")
  have t: "t = (case raised ar of None \<Rightarrow> None | Some e \<Rightarrow> if is_Exception e then None else Some e)"
    using consume_astream_task [of ar "new_StreamMessagesHandler msgs"] c by simp
  have "send_stream s' = map Send (map Chunk (chunks ar) @
          (case raised ar of None \<Rightarrow> [] | Some e \<Rightarrow> if is_Exception e then [Exc e] else [])) @ Close # []"
    using consume_astream_ops [of ar "new_StreamMessagesHandler msgs"] c
    by (simp add: new_StreamMessagesHandler_def split: option.splits)
  then have "receive_stream (send_stream s') = (map Chunk (chunks ar) @
          (case raised ar of None \<Rightarrow> [] | Some e \<Rightarrow> if is_Exception e then [Exc e] else []), True)"
    by (simp only: receive_stream_sends)
  with c t show ?thesis by (simp add: streaming_run_def)
qed


lemma awaits_stream_loop:
  "awaits (stream_loop env task closed h reads) =
     (if closed \<and> list_all (handled env) reads then 1 else 0)"
  by (induction env task closed h reads rule: stream_loop.induct)
     (auto simp add: encodable_def split: option.splits)

lemma awaits_drive_stream_loop:
  "awaits (drive n (stream_loop env task closed h reads)) =
     (if length (events (stream_loop env task closed h reads)) < n
      then awaits (stream_loop env task closed h reads) else 0)"
proof (induction env task closed h reads arbitrary: n rule: stream_loop.induct)
  case (1 env task closed h)
  show ?case
  proof (cases n)
    case 0
    then show ?thesis by simp
  next
    case (Suc k)
    then show ?thesis by (cases k) (simp_all split: option.splits)
  qed
next
  case (2 env task closed h e cb rest)
  show ?case
  proof (cases n)
    case 0
    then show ?thesis by simp
  next
    case (Suc k)
    then show ?thesis by (cases k) simp_all
  qed
next
  case (3 env task closed h c cb rest)
  show ?case
  proof (cases "serializer_raises env c")
    case (Some e)
    show ?thesis
    proof (cases n)
      case 0
      then show ?thesis by simp
    next
      case (Suc k)
      with Some show ?thesis by (cases k) simp_all
    qed
  next
    case None
    show ?thesis
    proof (cases "\<not> h \<and> cb \<noteq> []")
      case True
      note ih = "3.IH"(1) [OF True None]
      show ?thesis
      proof (cases n)
        case 0
        then show ?thesis by simp
      next
        case (Suc k)
        show ?thesis
        proof (cases k)
          case 0
          with Suc True None show ?thesis by simp
        next
          case k: (Suc j)
          with Suc True None ih [of j] show ?thesis by simp
        qed
      qed
    next
      case False
      note ih = "3.IH"(2) [OF False None]
      show ?thesis
      proof (cases n)
        case 0
        then show ?thesis by simp
      next
        case (Suc k)
        with False None ih [of k] show ?thesis by auto
      qed
    qed
  qed
qed

lemma handled_chunks:
  "list_all (handled env) (map (\<lambda>(c, cb). (Chunk c, cb)) ps) = list_all (encodable env) (map fst ps)"
  by (induction ps) (simp_all split: prod.splits)

lemma handled_observe_chunks:
  "list_all (handled env) (observe seen (map Chunk cs)) = list_all (encodable env) cs"
  unfolding observe_chunks handled_chunks map_fst_zip_seen ..

lemma handled_observe_exc:
  "list_all (handled env) (observe seen (map Chunk cs @ [Exc e])) = False"
  unfolding observe_snoc by simp

lemmas run_simps =
  streaming_run_def consume_astream_def send_def aclose_def new_StreamMessagesHandler_def
  stream_def observe_def upt_rec data_event_def metadata_event_def end_event_def error_event_def

lemma demo_encodable_PStr: "encodable demo_env (PStr s)"
  by (simp add: encodable_def demo_env_def demo_raises_def)

section \<open>Lemmas on the endpoint\<close>

lemma bind_Inl [simp]: "bind (l, Inl e) f = (l, Inl e)"
  by (simp add: bind_def)

lemma bind_Inr [simp]: "bind (l, Inr x) f = (case f x of (l', r) \<Rightarrow> (l @ l', r))"
  by (simp add: bind_def)

lemma sbind_Inl [simp]: "sbind (Inl e) f = Inl e"
  by (simp add: sbind_def)

lemma sbind_Inr [simp]: "sbind (Inr x) f = f x"
  by (simp add: sbind_def)

lemma gather_lookups_no_task: "filter is_task (fst (gather_lookups env uid body)) = []"
  by (cases "subscript body ''assistant_id''"; cases "subscript body ''thread_id''")
     (simp_all add: gather_lookups_def lift_def log_def split: prod.splits)

lemma make_config_dict: "make_config assistant body req = Inr config \<Longrightarrow> \<exists>kvs. config = PDict kvs"
  by (auto simp add: make_config_def attach_user_id_to_config_def sbind_def
      split: sum.splits option.splits)

lemma create_run_endpoint_resolved:
  assumes "json req = Inr body"
    and "gather_lookups env uid body = (l, Inr (assistant, state))"
    and "make_config assistant body req = Inr config"
  shows "create_run_endpoint env req uid =
     bind (l, validate env config body) (\<lambda>input'.
     bind (lift (subscript body ''stream'')) (\<lambda>s.
       if truthy s then
         bind (lift (subscript state ''messages'')) (\<lambda>prior.
         bind (lift (subscript input' ''messages'')) (\<lambda>new.
         bind (lift (py_add prior new)) (\<lambda>msgs.
         bind (lift (setitem config ''callbacks''
                 (PList [PObj ''streamer'', PObj ''event_aggregator'']))) (\<lambda>config'.
         bind (log (CreateTask input' config')) (\<lambda>_.
         ret (EventSourceResponse (new_StreamMessagesHandler msgs)))))))
       else
         bind (log (AddBackgroundTask input' config)) (\<lambda>_.
         ret (Dict (PDict [(''status'', PStr ''ok'')])))))"
  using assms
  by (simp add: create_run_endpoint_def request_json_def ret_def lift_def bind_def
      split: sum.splits prod.splits)


lemma demo_gather:
  "gather_lookups demo_env ''u1'' (demo_body rest) = (demo_lookups, Inr (demo_assistant, demo_state))"
  by (simp add: gather_lookups_def demo_env_def demo_body_def demo_lookups_def lift_def log_def)

lemma demo_make_config:
  "make_config demo_assistant (demo_body rest) (demo_request b) = Inr demo_config"
  by (simp add: make_config_def demo_assistant_def demo_body_def demo_request_def demo_config_def
      attach_user_id_to_config_def dict_of_items_def)

lemma demo_validate_ok:
  "validate demo_env demo_config (demo_body ((''stream'', st) # [(''input'', PDict [(''messages'', PList [PStr ''m4''])])])) =
     Inr (PDict [(''messages'', PList [PStr ''m4''])])"
  by (simp add: validate_def demo_env_def demo_body_def demo_validate_def)

section \<open>The claims\<close>

text \<open>
  Claim C1, as amended. For every streaming run in which the agent produces the chunks
  \<open>cs\<close>, each of which the serialiser encodes, and raises nothing, whatever \<open>event_aggregator.callback_events\<close> holds at each
  step (\<open>seen i\<close> when the \<open>i\<close>-th chunk is handled): the generator yields one data
  event per chunk, in production order; one metadata event, placed immediately before the
  data event of the first chunk that is handled while the aggregator holds a callback
  event, and none when there is no such chunk; then exactly one end event; after it the
  task is awaited, and only then does the generator finish. The metadata event is thus
  the first event exactly when the aggregator already holds an event at the first chunk.
\<close>

theorem success_sequence:
  assumes "list_all (encodable env) cs"
  shows "streaming_run env seen \<lparr>chunks = cs, raised = None\<rparr> (new_StreamMessagesHandler msgs) =
     map Emit
       (map (\<lambda>p. data_event env (fst p))
          (takeWhile (\<lambda>p. snd p = []) (zip cs (map seen [0..<length cs]))) @
        (case dropWhile (\<lambda>p. snd p = []) (zip cs (map seen [0..<length cs])) of
           [] \<Rightarrow> []
         | p # _ \<Rightarrow> [metadata_event env (snd p)]) @
        map (\<lambda>p. data_event env (fst p))
          (dropWhile (\<lambda>p. snd p = []) (zip cs (map seen [0..<length cs]))) @
        [end_event]) @
     [AwaitTask, StopAsyncIteration]
   \<and> filter (\<lambda>x. event x = ''data'')
       (events (streaming_run env seen \<lparr>chunks = cs, raised = None\<rparr> (new_StreamMessagesHandler msgs))) =
     map (data_event env) cs
   \<and> filter (\<lambda>x. event x = ''end'')
       (events (streaming_run env seen \<lparr>chunks = cs, raised = None\<rparr> (new_StreamMessagesHandler msgs))) =
     [end_event]"
proof -
  let ?ps = "zip cs (map seen [0..<length cs])"
  let ?run = "streaming_run env seen \<lparr>chunks = cs, raised = None\<rparr> (new_StreamMessagesHandler msgs)"
  have enc: "list_all (\<lambda>p. encodable env (fst p)) ?ps"
    using assms by (rule list_all_zip_fst)
  have run: "?run = stream_loop env None True False (map (\<lambda>(c, cb). (Chunk c, cb)) ?ps)"
    by (simp add: streaming_run_unfold stream_def observe_chunks)
  have a: "?run = map Emit
       (map (\<lambda>p. data_event env (fst p)) (takeWhile (\<lambda>p. snd p = []) ?ps) @
        (case dropWhile (\<lambda>p. snd p = []) ?ps of [] \<Rightarrow> [] | p # _ \<Rightarrow> [metadata_event env (snd p)]) @
        map (\<lambda>p. data_event env (fst p)) (dropWhile (\<lambda>p. snd p = []) ?ps) @
        [end_event]) @
     [AwaitTask, StopAsyncIteration]"
    unfolding run stream_loop_chunks [OF enc] by simp
  have run2: "?run = map Emit (chunk_events env False ?ps) @ stream_loop env None True (False \<or> list_ex (\<lambda>p. snd p \<noteq> []) ?ps) []"
    unfolding run using stream_loop_chunks_then [OF enc, of None True False "[]"] by simp
  have ev: "events ?run = chunk_events env False ?ps @ [end_event]"
    unfolding run2 by (simp add: events_append events_map_Emit)
  have "map (\<lambda>p. data_event env (fst p)) ?ps = map (data_event env) (map fst ?ps)"
    by (simp only: map_map comp_def)
  then have d: "map (\<lambda>p. data_event env (fst p)) ?ps = map (data_event env) cs"
    by (simp only: map_fst_zip_seen)
  have b: "filter (\<lambda>x. event x = ''data'') (events ?run) = map (data_event env) cs"
    unfolding ev by (simp add: chunk_events_data d end_event_def)
  have c: "filter (\<lambda>x. event x = ''end'') (events ?run) = [end_event]"
    unfolding ev by (simp add: chunk_events_end end_event_def)
  from a b c show ?thesis by blast
qed

text \<open>Claim C1 as stated does not hold: when the aggregator is still empty
  while the first chunk is handled and holds an event at the second, the metadata event
  comes after the first data event; and when the serialiser cannot encode a chunk (here
  an integer beyond 64 bits), the generator raises at that chunk, with no data event, no
  end event and no await of the task.\<close>

theorem success_metadata_not_first:
  "map event (events (streaming_run demo_env
      (\<lambda>i. if i = 0 then [] else [PStr ''on_chain_start''])
      \<lparr>chunks = [PStr ''A'', PStr ''B''], raised = None\<rparr>
      (new_StreamMessagesHandler (PList [PStr ''m1'', PStr ''m2'', PStr ''m3'', PStr ''m4'']))))
   = [''data'', ''metadata'', ''data'', ''end'']
   \<and> streaming_run demo_env (\<lambda>i. [])
      \<lparr>chunks = [PInt 18446744073709551616], raised = None\<rparr>
      (new_StreamMessagesHandler (PList [])) = [Raise TypeError]"
  by (simp add: streaming_run_def consume_astream_def send_def aclose_def
      new_StreamMessagesHandler_def stream_def observe_def upt_rec
      data_event_def metadata_event_def end_event_def demo_env_def demo_raises_def)

text \<open>The scenario of the specification (three prior messages, one new one, chunks
  \<open>A\<close> and \<open>B\<close>), with an aggregator that stays empty and with one that holds an
  event from the start.\<close>

theorem success_sequence_witness:
  "list_all (encodable demo_env) [PStr ''A'', PStr ''B'']
   \<and> events (streaming_run demo_env (\<lambda>i. [])
      \<lparr>chunks = [PStr ''A'', PStr ''B''], raised = None\<rparr>
      (new_StreamMessagesHandler (PList [PStr ''m1'', PStr ''m2'', PStr ''m3'', PStr ''m4''])))
   = [data_event demo_env (PStr ''A''), data_event demo_env (PStr ''B''), end_event]
   \<and> events (streaming_run demo_env (\<lambda>i. [PStr ''on_chain_start''])
      \<lparr>chunks = [PStr ''A'', PStr ''B''], raised = None\<rparr>
      (new_StreamMessagesHandler (PList [PStr ''m1'', PStr ''m2'', PStr ''m3'', PStr ''m4''])))
   = [metadata_event demo_env [PStr ''on_chain_start''],
      data_event demo_env (PStr ''A''), data_event demo_env (PStr ''B''), end_event]"
proof -
  have h: "list_all (encodable demo_env) [PStr ''A'', PStr ''B'']"
    by (simp add: demo_encodable_PStr)
  from h success_sequence [OF h, of "\<lambda>i. []"
      "PList [PStr ''m1'', PStr ''m2'', PStr ''m3'', PStr ''m4'']"]
    success_sequence [OF h, of "\<lambda>i. [PStr ''on_chain_start'']"
      "PList [PStr ''m1'', PStr ''m2'', PStr ''m3'', PStr ''m4'']"]
  show ?thesis
    by (simp add: upt_rec events_map_Emit events_append)
qed

text \<open>
  Claim C2, as amended. For every streaming run in which the agent raises an exception
  \<open>e\<close> that is an instance of \<open>Exception\<close> (what \<open>consume_astream\<close> catches) after
  producing the chunks \<open>cs\<close>, each of which the serialiser encodes: the client observes one data event per chunk, in order; exactly one
  error event, the last event, whose payload is the serialisation of
  \<open>{"status_code": 500, "message": "Internal Server Error"}\<close>; no end event; the
  generator then re-raises \<open>e\<close>. The events do not depend on \<open>e\<close>: any other
  exception in its place gives the same events, so nothing of its text reaches them.
\<close>

theorem failure_sequence:
  assumes "is_Exception e" and "list_all (encodable env) cs"
  shows "filter (\<lambda>x. event x = ''data'')
       (events (streaming_run env seen \<lparr>chunks = cs, raised = Some e\<rparr> (new_StreamMessagesHandler msgs))) =
     map (data_event env) cs
   \<and> filter (\<lambda>x. event x = ''error'')
       (events (streaming_run env seen \<lparr>chunks = cs, raised = Some e\<rparr> (new_StreamMessagesHandler msgs))) =
     [\<lparr>event = ''error'',
       data = Some (orjson_dumps env
         (PDict [(''status_code'', PInt 500), (''message'', PStr ''Internal Server Error'')]))\<rparr>]
   \<and> last (events (streaming_run env seen \<lparr>chunks = cs, raised = Some e\<rparr> (new_StreamMessagesHandler msgs))) =
     \<lparr>event = ''error'',
      data = Some (orjson_dumps env
        (PDict [(''status_code'', PInt 500), (''message'', PStr ''Internal Server Error'')]))\<rparr>
   \<and> filter (\<lambda>x. event x = ''end'')
       (events (streaming_run env seen \<lparr>chunks = cs, raised = Some e\<rparr> (new_StreamMessagesHandler msgs))) = []
   \<and> last (streaming_run env seen \<lparr>chunks = cs, raised = Some e\<rparr> (new_StreamMessagesHandler msgs)) = Raise e
   \<and> (\<forall>e'. is_Exception e' \<longrightarrow>
        events (streaming_run env seen \<lparr>chunks = cs, raised = Some e'\<rparr> (new_StreamMessagesHandler msgs)) =
        events (streaming_run env seen \<lparr>chunks = cs, raised = Some e\<rparr> (new_StreamMessagesHandler msgs)))"
proof -
  let ?ps = "zip cs (map seen [0..<length cs])"
  have enc: "list_all (\<lambda>p. encodable env (fst p)) ?ps"
    using assms(2) by (rule list_all_zip_fst)
  have run: "streaming_run env seen \<lparr>chunks = cs, raised = Some x\<rparr> (new_StreamMessagesHandler msgs) =
      map Emit (chunk_events env False ?ps) @ [Emit (error_event env), Raise x]"
    if "is_Exception x" for x
    using that stream_loop_chunks_then [OF enc, of None True False "[(Exc x, seen (length cs))]"]
    by (simp add: streaming_run_unfold stream_def observe_snoc)
  have ev: "events (streaming_run env seen \<lparr>chunks = cs, raised = Some x\<rparr> (new_StreamMessagesHandler msgs)) =
      chunk_events env False ?ps @ [error_event env]"
    if "is_Exception x" for x
    by (simp add: run [OF that] events_append events_map_Emit)
  have "map (\<lambda>p. data_event env (fst p)) ?ps = map (data_event env) (map fst ?ps)"
    by (simp only: map_map comp_def)
  then have d: "map (\<lambda>p. data_event env (fst p)) ?ps = map (data_event env) cs"
    by (simp only: map_fst_zip_seen)
  let ?R = "\<lambda>x. streaming_run env seen \<lparr>chunks = cs, raised = Some x\<rparr> (new_StreamMessagesHandler msgs)"
  let ?err = "\<lparr>event = ''error'',
       data = Some (orjson_dumps env
         (PDict [(''status_code'', PInt 500), (''message'', PStr ''Internal Server Error'')]))\<rparr>"
  have 1: "filter (\<lambda>x. event x = ''data'') (events (?R e)) = map (data_event env) cs"
    unfolding ev [OF assms(1)] by (simp add: chunk_events_data d error_event_def)
  have 2: "filter (\<lambda>x. event x = ''error'') (events (?R e)) = [?err]"
    unfolding ev [OF assms(1)] by (simp add: chunk_events_error error_event_def)
  have 3: "last (events (?R e)) = ?err"
    unfolding ev [OF assms(1)] by (simp add: error_event_def)
  have 4: "filter (\<lambda>x. event x = ''end'') (events (?R e)) = []"
    unfolding ev [OF assms(1)] by (simp add: chunk_events_end error_event_def)
  have 5: "last (?R e) = Raise e"
    unfolding run [OF assms(1)] by simp
  have 6: "\<forall>e'. is_Exception e' \<longrightarrow> events (?R e') = events (?R e)"
    by (simp add: ev assms(1))
  from 1 2 3 4 5 6 show ?thesis
    by (intro conjI)
qed

text \<open>Claim C2 as stated does not hold: a failure outside \<open>Exception\<close>
  (a cancellation) is not caught by the task, so the client gets the data event and the
  end event and no error event, and the exception surfaces when the task is awaited; and
  when the serialiser cannot encode a chunk, the generator raises at that chunk, before
  any error event.\<close>

theorem failure_without_error_event:
  "streaming_run demo_env (\<lambda>i. [])
      \<lparr>chunks = [PStr ''A''], raised = Some (OtherBaseException ''cancelled'')\<rparr>
      (new_StreamMessagesHandler (PList []))
     = [Emit \<lparr>event = ''data'', data = Some (demo_dumps (PStr ''A''))\<rparr>,
        Emit \<lparr>event = ''end'', data = None\<rparr>, AwaitTask,
        Raise (OtherBaseException ''cancelled'')]
   \<and> streaming_run demo_env (\<lambda>i. [])
      \<lparr>chunks = [PInt 18446744073709551616], raised = Some (OtherException ''x'')\<rparr>
      (new_StreamMessagesHandler (PList []))
     = [Raise TypeError]"
  by (simp add: run_simps demo_env_def demo_raises_def)

text \<open>The scenario of the specification: chunk \<open>A\<close>, then an exception with the
  text \<open>x\<close>.\<close>

theorem failure_sequence_witness:
  "is_Exception (OtherException ''x'')
   \<and> list_all (encodable demo_env) [PStr ''A'']
   \<and> streaming_run demo_env (\<lambda>i. [])
        \<lparr>chunks = [PStr ''A''], raised = Some (OtherException ''x'')\<rparr>
        (new_StreamMessagesHandler (PList []))
     = [Emit \<lparr>event = ''data'', data = Some (demo_dumps (PStr ''A''))\<rparr>,
        Emit \<lparr>event = ''error'',
              data = Some (demo_dumps
                (PDict [(''status_code'', PInt 500), (''message'', PStr ''Internal Server Error'')]))\<rparr>,
        Raise (OtherException ''x'')]
   \<and> filter (\<lambda>x. event x = ''error'')
        (events (streaming_run demo_env (\<lambda>i. [])
          \<lparr>chunks = [PStr ''A''], raised = Some (OtherException ''x'')\<rparr>
          (new_StreamMessagesHandler (PList []))))
     = [\<lparr>event = ''error'',
         data = Some (orjson_dumps demo_env
           (PDict [(''status_code'', PInt 500), (''message'', PStr ''Internal Server Error'')]))\<rparr>]
   \<and> events (streaming_run demo_env (\<lambda>i. [])
          \<lparr>chunks = [PStr ''A''], raised = Some (OtherException ''a secret'')\<rparr>
          (new_StreamMessagesHandler (PList [])))
     = events (streaming_run demo_env (\<lambda>i. [])
          \<lparr>chunks = [PStr ''A''], raised = Some (OtherException ''x'')\<rparr>
          (new_StreamMessagesHandler (PList [])))"
proof -
  have h: "is_Exception (OtherException ''x'')" by simp
  have c: "list_all (encodable demo_env) [PStr ''A'']"
    by (simp add: demo_encodable_PStr)
  have r: "streaming_run demo_env (\<lambda>i. [])
        \<lparr>chunks = [PStr ''A''], raised = Some (OtherException ''x'')\<rparr>
        (new_StreamMessagesHandler (PList []))
     = [Emit \<lparr>event = ''data'', data = Some (demo_dumps (PStr ''A''))\<rparr>,
        Emit \<lparr>event = ''error'',
              data = Some (demo_dumps
                (PDict [(''status_code'', PInt 500), (''message'', PStr ''Internal Server Error'')]))\<rparr>,
        Raise (OtherException ''x'')]"
    by (simp add: run_simps demo_env_def demo_raises_def)
  note fs = failure_sequence [OF h c, of "\<lambda>i. []" "PList []"]
  have e: "filter (\<lambda>x. event x = ''error'')
        (events (streaming_run demo_env (\<lambda>i. [])
          \<lparr>chunks = [PStr ''A''], raised = Some (OtherException ''x'')\<rparr>
          (new_StreamMessagesHandler (PList []))))
     = [\<lparr>event = ''error'',
         data = Some (orjson_dumps demo_env
           (PDict [(''status_code'', PInt 500), (''message'', PStr ''Internal Server Error'')]))\<rparr>]"
    by (rule fs [THEN conjunct2, THEN conjunct1])
  have h': "is_Exception (OtherException ''a secret'')" by simp
  have n: "events (streaming_run demo_env (\<lambda>i. [])
          \<lparr>chunks = [PStr ''A''], raised = Some (OtherException ''a secret'')\<rparr>
          (new_StreamMessagesHandler (PList [])))
     = events (streaming_run demo_env (\<lambda>i. [])
          \<lparr>chunks = [PStr ''A''], raised = Some (OtherException ''x'')\<rparr>
          (new_StreamMessagesHandler (PList [])))"
    by (rule fs [THEN conjunct2, THEN conjunct2, THEN conjunct2, THEN conjunct2, THEN conjunct2,
          THEN spec, THEN mp, OF h'])
  from h c r e n show ?thesis by (intro conjI)
qed



text \<open>
  Claim C4, as amended. In a streaming run whose consumer asks the generator for \<open>n\<close>
  events and then drops it, the task handle is awaited at most once: exactly once when
  the serialiser encodes every chunk, no exception object is read from the channel and
  the consumer asks again after the end event (\<open>n\<close> exceeds the number of events); not
  at all when the agent raised an \<open>Exception\<close> (the generator re-raises it right after
  the error event), when the serialiser raises on a chunk, or when the consumer leaves at
  the end event or before.
\<close>

theorem task_awaited_when:
  "awaits (drive n (streaming_run env seen ar (new_StreamMessagesHandler msgs))) =
     (if list_all (encodable env) (chunks ar)
         \<and> (case raised ar of None \<Rightarrow> True | Some e \<Rightarrow> \<not> is_Exception e)
         \<and> length (events (streaming_run env seen ar (new_StreamMessagesHandler msgs))) < n
      then 1 else 0)"
proof -
  let ?tail = "case raised ar of None \<Rightarrow> [] | Some e \<Rightarrow> if is_Exception e then [Exc e] else []"
  have h: "list_all (handled env) (observe seen (map Chunk (chunks ar) @ ?tail)) =
      (list_all (encodable env) (chunks ar) \<and>
       (case raised ar of None \<Rightarrow> True | Some e \<Rightarrow> \<not> is_Exception e))"
    by (cases "raised ar") (simp_all add: handled_observe_chunks handled_observe_exc)
  show ?thesis
    unfolding streaming_run_unfold stream_def awaits_drive_stream_loop awaits_stream_loop h
    by auto
qed

text \<open>Claim C4 as stated does not hold: the handle is not awaited in a run
  that ends with the failure marker, however long the consumer stays, nor in a successful
  run whose consumer leaves after the first event, nor in a run with a chunk that the
  serialiser cannot encode.\<close>

theorem task_not_awaited:
  "awaits (drive 10 (streaming_run demo_env (\<lambda>i. [])
      \<lparr>chunks = [PStr ''A''], raised = Some (OtherException ''x'')\<rparr>
      (new_StreamMessagesHandler (PList [])))) = 0
   \<and> awaits (drive 1 (streaming_run demo_env (\<lambda>i. [])
      \<lparr>chunks = [PStr ''A'', PStr ''B''], raised = None\<rparr>
      (new_StreamMessagesHandler (PList [])))) = 0
   \<and> awaits (drive 10 (streaming_run demo_env (\<lambda>i. [])
      \<lparr>chunks = [PInt 18446744073709551616], raised = None\<rparr>
      (new_StreamMessagesHandler (PList [])))) = 0"
proof -
  have 1: "streaming_run demo_env (\<lambda>i. [])
      \<lparr>chunks = [PStr ''A''], raised = Some (OtherException ''x'')\<rparr>
      (new_StreamMessagesHandler (PList []))
     = [Emit \<lparr>event = ''data'', data = Some (demo_dumps (PStr ''A''))\<rparr>,
        Emit \<lparr>event = ''error'',
              data = Some (demo_dumps
                (PDict [(''status_code'', PInt 500), (''message'', PStr ''Internal Server Error'')]))\<rparr>,
        Raise (OtherException ''x'')]"
    by (simp add: streaming_run_def consume_astream_def send_def aclose_def
        new_StreamMessagesHandler_def stream_def observe_def upt_rec demo_env_def demo_raises_def
        data_event_def error_event_def)
  have 2: "streaming_run demo_env (\<lambda>i. [])
      \<lparr>chunks = [PStr ''A'', PStr ''B''], raised = None\<rparr>
      (new_StreamMessagesHandler (PList []))
     = [Emit \<lparr>event = ''data'', data = Some (demo_dumps (PStr ''A''))\<rparr>,
        Emit \<lparr>event = ''data'', data = Some (demo_dumps (PStr ''B''))\<rparr>,
        Emit end_event, AwaitTask, StopAsyncIteration]"
    by (simp add: streaming_run_def consume_astream_def send_def aclose_def
        new_StreamMessagesHandler_def stream_def observe_def upt_rec demo_env_def demo_raises_def
        data_event_def error_event_def)
  have 3: "streaming_run demo_env (\<lambda>i. [])
      \<lparr>chunks = [PInt 18446744073709551616], raised = None\<rparr>
      (new_StreamMessagesHandler (PList [])) = [Raise TypeError]"
    by (simp add: run_simps demo_env_def demo_raises_def)
  show ?thesis
    unfolding 1 2 3 by (simp add: eval_nat_numeral)
qed

text \<open>
  Claim C5. For every run of the background task on a fresh handler, the operations on
  the producing end of the channel are: one send per chunk, in order; then the exception
  object, once, exactly when the agent raised an \<open>Exception\<close>; then the close. So at
  most one failure marker is written, nothing follows it but the close, and the channel is
  closed exactly once, as the last operation, whatever the agent did.
\<close>

theorem consume_astream_channel:
  "send_stream (fst (consume_astream ar (new_StreamMessagesHandler msgs))) =
     map (\<lambda>c. Send (Chunk c)) (chunks ar) @
     (case raised ar of None \<Rightarrow> [] | Some e \<Rightarrow> if is_Exception e then [Send (Exc e)] else []) @
     [Close]
   \<and> length (filter is_failure_marker
         (send_stream (fst (consume_astream ar (new_StreamMessagesHandler msgs))))) \<le> 1
   \<and> length (filter (\<lambda>op. op = Close)
         (send_stream (fst (consume_astream ar (new_StreamMessagesHandler msgs))))) = 1
   \<and> last (send_stream (fst (consume_astream ar (new_StreamMessagesHandler msgs)))) = Close"
proof -
  have m: "filter is_failure_marker (map (\<lambda>c. Send (Chunk c)) cs) = []" for cs
    by (induction cs) simp_all
  have c: "filter (\<lambda>op. op = Close) (map (\<lambda>c. Send (Chunk c)) cs) = []" for cs
    by (induction cs) simp_all
  show ?thesis
    by (simp add: consume_astream_ops new_StreamMessagesHandler_def m c split: option.splits)
qed



text \<open>
  Claim C7. For every request that passes the checks of the endpoint (the body is
  decoded, the lookups succeed, the configuration is built, the input validates) and
  whose \<open>"stream"\<close> entry is falsy, the endpoint registers
  \<open>agent.ainvoke(input_, config)\<close> with \<open>background_tasks.add_task\<close>, as the only task
  and the last effect, and returns \<open>{"status": "ok"}\<close>, a dictionary with no run
  identifier. The result is the same whatever outcome the registered call has later: the
  endpoint never reads it.
\<close>

theorem non_streaming_acknowledged:
  assumes "json req = Inr body"
    and "gather_lookups env uid body = (l, Inr (assistant, state))"
    and "make_config assistant body req = Inr config"
    and "validate env config body = Inr input'"
    and "subscript body ''stream'' = Inr s"
    and "\<not> truthy s"
  shows "create_run_endpoint env req uid =
       (l @ [AddBackgroundTask input' config], Inr (Dict (PDict [(''status'', PStr ''ok'')])))
     \<and> subscript (PDict [(''status'', PStr ''ok'')]) ''run_id'' = Inl (KeyError ''run_id'')
     \<and> filter is_task (l @ [AddBackgroundTask input' config]) = [AddBackgroundTask input' config]
     \<and> (\<forall>outcome. create_run_endpoint (env\<lparr>agent_ainvoke := outcome\<rparr>) req uid =
          create_run_endpoint env req uid)"
proof -
  have 1: "create_run_endpoint env req uid =
       (l @ [AddBackgroundTask input' config], Inr (Dict (PDict [(''status'', PStr ''ok'')])))"
    using assms(4-6)
    by (simp add: create_run_endpoint_resolved [OF assms(1-3)] lift_def log_def ret_def)
  have 2: "filter is_task (l @ [AddBackgroundTask input' config]) = [AddBackgroundTask input' config]"
    using gather_lookups_no_task [of env uid body] assms(2) by simp
  have 3: "create_run_endpoint (env\<lparr>agent_ainvoke := outcome\<rparr>) req uid =
          create_run_endpoint env req uid" for outcome
    by (simp add: create_run_endpoint_def gather_lookups_def validate_def)
  from 1 2 3 show ?thesis by simp
qed

text \<open>A valid request with \<open>"stream": false\<close>, in an environment where the
  registered call will fail.\<close>

theorem non_streaming_acknowledged_witness:
  "json (demo_request (demo_body [(''stream'', PBool False), (''input'', PDict [(''messages'', PList [PStr ''m4''])])])) =
     Inr (demo_body [(''stream'', PBool False), (''input'', PDict [(''messages'', PList [PStr ''m4''])])])
   \<and> gather_lookups demo_env ''u1''
       (demo_body [(''stream'', PBool False), (''input'', PDict [(''messages'', PList [PStr ''m4''])])]) =
     (demo_lookups, Inr (demo_assistant, demo_state))
   \<and> make_config demo_assistant
       (demo_body [(''stream'', PBool False), (''input'', PDict [(''messages'', PList [PStr ''m4''])])])
       (demo_request (demo_body [(''stream'', PBool False), (''input'', PDict [(''messages'', PList [PStr ''m4''])])])) =
     Inr demo_config
   \<and> validate demo_env demo_config
       (demo_body [(''stream'', PBool False), (''input'', PDict [(''messages'', PList [PStr ''m4''])])]) =
     Inr (PDict [(''messages'', PList [PStr ''m4''])])
   \<and> subscript (demo_body [(''stream'', PBool False), (''input'', PDict [(''messages'', PList [PStr ''m4''])])])
       ''stream'' = Inr (PBool False)
   \<and> \<not> truthy (PBool False)
   \<and> agent_ainvoke demo_env (PDict [(''messages'', PList [PStr ''m4''])]) demo_config =
       Inl (OtherException ''boom'')
   \<and> create_run_endpoint demo_env
       (demo_request (demo_body [(''stream'', PBool False), (''input'', PDict [(''messages'', PList [PStr ''m4''])])]))
       ''u1'' =
     (demo_lookups @ [AddBackgroundTask (PDict [(''messages'', PList [PStr ''m4''])]) demo_config],
      Inr (Dict (PDict [(''status'', PStr ''ok'')])))"
proof -
  let ?body = "demo_body [(''stream'', PBool False), (''input'', PDict [(''messages'', PList [PStr ''m4''])])]"
  have h1: "json (demo_request ?body) = Inr ?body"
    by (simp add: demo_request_def)
  have h2: "gather_lookups demo_env ''u1'' ?body = (demo_lookups, Inr (demo_assistant, demo_state))"
    by (rule demo_gather)
  have h3: "make_config demo_assistant ?body (demo_request ?body) = Inr demo_config"
    by (rule demo_make_config)
  have h4: "validate demo_env demo_config ?body = Inr (PDict [(''messages'', PList [PStr ''m4''])])"
    by (rule demo_validate_ok)
  have h5: "subscript ?body ''stream'' = Inr (PBool False)"
    by (simp add: demo_body_def)
  have h6: "\<not> truthy (PBool False)"
    by simp
  have a: "agent_ainvoke demo_env (PDict [(''messages'', PList [PStr ''m4''])]) demo_config =
       Inl (OtherException ''boom'')"
    by (simp add: demo_env_def)
  note r = non_streaming_acknowledged [OF h1 h2 h3 h4 h5 h6, THEN conjunct1]
  from h1 h2 h3 h4 h5 h6 a r show ?thesis by (intro conjI)
qed

text \<open>
  Claim C8. For every request that passes the checks and whose \<open>"stream"\<close> entry is
  truthy, with the list \<open>prior\<close> under \<open>state["messages"]\<close> and the list \<open>new\<close> under
  \<open>input_["messages"]\<close>: the endpoint starts the task and returns the response over a
  handler constructed with \<open>prior @ new\<close>, the prior messages followed by the new ones in
  order; and the handler holds that same sequence after the background task has run,
  whatever the agent did.
\<close>

theorem handler_holds_full_history:
  assumes "json req = Inr body"
    and "gather_lookups env uid body = (l, Inr (assistant, state))"
    and "make_config assistant body req = Inr config"
    and "validate env config body = Inr input'"
    and "subscript body ''stream'' = Inr s"
    and "truthy s"
    and "subscript state ''messages'' = Inr (PList prior)"
    and "subscript input' ''messages'' = Inr (PList new)"
  shows "(\<exists>config'. create_run_endpoint env req uid =
       (l @ [CreateTask input' config'],
        Inr (EventSourceResponse (new_StreamMessagesHandler (PList (prior @ new))))))
     \<and> messages (new_StreamMessagesHandler (PList (prior @ new))) = PList (prior @ new)
     \<and> (\<forall>ar. messages (fst (consume_astream ar (new_StreamMessagesHandler (PList (prior @ new))))) =
          PList (prior @ new))"
proof -
  obtain kvs where kvs: "config = PDict kvs"
    using make_config_dict [OF assms(3)] by blast
  have 1: "create_run_endpoint env req uid =
       (l @ [CreateTask input' (PDict (AList.update ''callbacks''
               (PList [PObj ''streamer'', PObj ''event_aggregator'']) kvs))],
        Inr (EventSourceResponse (new_StreamMessagesHandler (PList (prior @ new)))))"
    using assms(4-8) kvs
    by (simp add: create_run_endpoint_resolved [OF assms(1-3)] lift_def log_def ret_def)
  have 2: "messages (new_StreamMessagesHandler (PList (prior @ new))) = PList (prior @ new)"
    by (simp add: new_StreamMessagesHandler_def)
  have 3: "messages (fst (consume_astream ar (new_StreamMessagesHandler (PList (prior @ new))))) =
          PList (prior @ new)" for ar
    by (simp add: consume_astream_messages new_StreamMessagesHandler_def)
  from 1 2 3 show ?thesis by blast
qed

text \<open>The scenario of the specification: three prior messages and one new
  message.\<close>

theorem handler_holds_full_history_witness:
  "json (demo_request (demo_body [(''stream'', PBool True), (''input'', PDict [(''messages'', PList [PStr ''m4''])])])) =
     Inr (demo_body [(''stream'', PBool True), (''input'', PDict [(''messages'', PList [PStr ''m4''])])])
   \<and> gather_lookups demo_env ''u1''
       (demo_body [(''stream'', PBool True), (''input'', PDict [(''messages'', PList [PStr ''m4''])])]) =
     (demo_lookups, Inr (demo_assistant, demo_state))
   \<and> make_config demo_assistant
       (demo_body [(''stream'', PBool True), (''input'', PDict [(''messages'', PList [PStr ''m4''])])])
       (demo_request (demo_body [(''stream'', PBool True), (''input'', PDict [(''messages'', PList [PStr ''m4''])])])) =
     Inr demo_config
   \<and> validate demo_env demo_config
       (demo_body [(''stream'', PBool True), (''input'', PDict [(''messages'', PList [PStr ''m4''])])]) =
     Inr (PDict [(''messages'', PList [PStr ''m4''])])
   \<and> subscript (demo_body [(''stream'', PBool True), (''input'', PDict [(''messages'', PList [PStr ''m4''])])])
       ''stream'' = Inr (PBool True)
   \<and> truthy (PBool True)
   \<and> subscript demo_state ''messages'' = Inr (PList [PStr ''m1'', PStr ''m2'', PStr ''m3''])
   \<and> subscript (PDict [(''messages'', PList [PStr ''m4''])]) ''messages'' = Inr (PList [PStr ''m4''])
   \<and> snd (create_run_endpoint demo_env
       (demo_request (demo_body [(''stream'', PBool True), (''input'', PDict [(''messages'', PList [PStr ''m4''])])]))
       ''u1'') =
     Inr (EventSourceResponse
       (new_StreamMessagesHandler (PList ([PStr ''m1'', PStr ''m2'', PStr ''m3''] @ [PStr ''m4'']))))
   \<and> messages (fst (consume_astream \<lparr>chunks = [PStr ''A'', PStr ''B''], raised = None\<rparr>
       (new_StreamMessagesHandler (PList ([PStr ''m1'', PStr ''m2'', PStr ''m3''] @ [PStr ''m4'']))))) =
     PList ([PStr ''m1'', PStr ''m2'', PStr ''m3''] @ [PStr ''m4''])"
proof -
  let ?body = "demo_body [(''stream'', PBool True), (''input'', PDict [(''messages'', PList [PStr ''m4''])])]"
  have h1: "json (demo_request ?body) = Inr ?body"
    by (simp add: demo_request_def)
  have h2: "gather_lookups demo_env ''u1'' ?body = (demo_lookups, Inr (demo_assistant, demo_state))"
    by (rule demo_gather)
  have h3: "make_config demo_assistant ?body (demo_request ?body) = Inr demo_config"
    by (rule demo_make_config)
  have h4: "validate demo_env demo_config ?body = Inr (PDict [(''messages'', PList [PStr ''m4''])])"
    by (rule demo_validate_ok)
  have h5: "subscript ?body ''stream'' = Inr (PBool True)"
    by (simp add: demo_body_def)
  have h6: "truthy (PBool True)"
    by simp
  have h7: "subscript demo_state ''messages'' = Inr (PList [PStr ''m1'', PStr ''m2'', PStr ''m3''])"
    by (simp add: demo_state_def)
  have h8: "subscript (PDict [(''messages'', PList [PStr ''m4''])]) ''messages'' = Inr (PList [PStr ''m4''])"
    by simp
  note t = handler_holds_full_history [OF h1 h2 h3 h4 h5 h6 h7 h8]
  from t obtain config' where "create_run_endpoint demo_env (demo_request ?body) ''u1'' =
       (demo_lookups @ [CreateTask (PDict [(''messages'', PList [PStr ''m4''])]) config'],
        Inr (EventSourceResponse
          (new_StreamMessagesHandler (PList ([PStr ''m1'', PStr ''m2'', PStr ''m3''] @ [PStr ''m4''])))))"
    by (elim conjE exE)
  then have r: "snd (create_run_endpoint demo_env (demo_request ?body) ''u1'') =
       Inr (EventSourceResponse
          (new_StreamMessagesHandler (PList ([PStr ''m1'', PStr ''m2'', PStr ''m3''] @ [PStr ''m4'']))))"
    by (simp only: snd_conv)
  have m: "messages (fst (consume_astream \<lparr>chunks = [PStr ''A'', PStr ''B''], raised = None\<rparr>
       (new_StreamMessagesHandler (PList ([PStr ''m1'', PStr ''m2'', PStr ''m3''] @ [PStr ''m4'']))))) =
     PList ([PStr ''m1'', PStr ''m2'', PStr ''m3''] @ [PStr ''m4''])"
    by (rule t [THEN conjunct2, THEN conjunct2, THEN spec])
  from h1 h2 h3 h4 h5 h6 h7 h8 r m show ?thesis by (intro conjI)
qed

text \<open>
  Claim C9. When the agent produces no chunk and raises nothing, the generator yields
  the end event and nothing else, then awaits the task and finishes, whatever the
  aggregator holds (\<open>seen\<close> is arbitrary): the metadata event is only ever emitted while a
  chunk is handled.
\<close>

theorem zero_chunks_only_end:
  "streaming_run env seen \<lparr>chunks = [], raised = None\<rparr> (new_StreamMessagesHandler msgs) =
     [Emit end_event, AwaitTask, StopAsyncIteration]
   \<and> events (streaming_run env seen \<lparr>chunks = [], raised = None\<rparr> (new_StreamMessagesHandler msgs)) =
     [end_event]"
  by (simp add: streaming_run_unfold stream_def observe_def)

text \<open>
  Claim C10, as amended. For a request whose body is a JSON object, the endpoint raises
  \<open>KeyError\<close> at the first read of a missing key, provided the steps before that read
  succeed: always for \<open>"assistant_id"\<close>; for \<open>"thread_id"\<close> when \<open>"assistant_id"\<close>
  is present (the first lookup is then already submitted); for \<open>"input"\<close> when the
  lookups, the configuration and \<open>agent.get_input_schema\<close> succeed; for \<open>"stream"\<close> when
  the input validates as well. No request model is applied to the body before.
\<close>

theorem missing_key_KeyError:
  assumes "json req = Inr (PDict kvs)"
  shows "(map_of kvs ''assistant_id'' = None \<longrightarrow>
        create_run_endpoint env req uid = ([], Inl (KeyError ''assistant_id'')))
     \<and> (\<forall>aid. map_of kvs ''assistant_id'' = Some aid \<and> map_of kvs ''thread_id'' = None \<longrightarrow>
        create_run_endpoint env req uid =
          ([RunInExecutor ''get_assistant'' [PStr uid, aid]], Inl (KeyError ''thread_id'')))
     \<and> (\<forall>l assistant state config schema_validate.
        gather_lookups env uid (PDict kvs) = (l, Inr (assistant, state)) \<and>
        make_config assistant (PDict kvs) req = Inr config \<and>
        get_input_schema env config = Inr schema_validate \<and>
        map_of kvs ''input'' = None \<longrightarrow>
        create_run_endpoint env req uid = (l, Inl (KeyError ''input'')))
     \<and> (\<forall>l assistant state config input'.
        gather_lookups env uid (PDict kvs) = (l, Inr (assistant, state)) \<and>
        make_config assistant (PDict kvs) req = Inr config \<and>
        validate env config (PDict kvs) = Inr input' \<and>
        map_of kvs ''stream'' = None \<longrightarrow>
        create_run_endpoint env req uid = (l, Inl (KeyError ''stream'')))"
proof (intro conjI allI impI)
  assume "map_of kvs ''assistant_id'' = None"
  with assms show "create_run_endpoint env req uid = ([], Inl (KeyError ''assistant_id''))"
    by (simp add: create_run_endpoint_def request_json_def ret_def gather_lookups_def lift_def)
next
  fix aid
  assume "map_of kvs ''assistant_id'' = Some aid \<and> map_of kvs ''thread_id'' = None"
  with assms show "create_run_endpoint env req uid =
          ([RunInExecutor ''get_assistant'' [PStr uid, aid]], Inl (KeyError ''thread_id''))"
    by (simp add: create_run_endpoint_def request_json_def ret_def gather_lookups_def lift_def
        log_def)
next
  fix l assistant state config schema_validate
  assume a: "gather_lookups env uid (PDict kvs) = (l, Inr (assistant, state)) \<and>
        make_config assistant (PDict kvs) req = Inr config \<and>
        get_input_schema env config = Inr schema_validate \<and>
        map_of kvs ''input'' = None"
  then have "validate env config (PDict kvs) = Inl (KeyError ''input'')"
    by (simp add: validate_def)
  with a show "create_run_endpoint env req uid = (l, Inl (KeyError ''input''))"
    by (simp add: create_run_endpoint_resolved [of req "PDict kvs" env uid l assistant state config] assms)
next
  fix l assistant state config input'
  assume a: "gather_lookups env uid (PDict kvs) = (l, Inr (assistant, state)) \<and>
        make_config assistant (PDict kvs) req = Inr config \<and>
        validate env config (PDict kvs) = Inr input' \<and>
        map_of kvs ''stream'' = None"
  then show "create_run_endpoint env req uid = (l, Inl (KeyError ''stream''))"
    by (simp add: create_run_endpoint_resolved [of req "PDict kvs" env uid l assistant state config]
        assms lift_def)
qed

text \<open>Claim C10 as stated does not hold: a body that lacks \<open>"stream"\<close> and
  whose input the schema rejects is answered with the structured
  \<open>RequestValidationError\<close>, since the input is validated before \<open>body["stream"]\<close> is
  read.\<close>

theorem missing_stream_validation_error:
  "create_run_endpoint demo_env
     (demo_request (PDict [(''assistant_id'', PStr ''a1''), (''thread_id'', PStr ''t1''),
                           (''input'', PInt 5)])) ''u1'' =
   ([RunInExecutor ''get_assistant'' [PStr ''u1'', PStr ''a1''],
     RunInExecutor ''get_thread_messages'' [PStr ''u1'', PStr ''t1'']],
    Inl (RequestValidationError (PList [PStr ''messages: a list is required''])
      (Some (PDict [(''assistant_id'', PStr ''a1''), (''thread_id'', PStr ''t1''),
                    (''input'', PInt 5)]))))"
proof -
  let ?body = "demo_body [(''input'', PInt 5)]"
  have b: "PDict [(''assistant_id'', PStr ''a1''), (''thread_id'', PStr ''t1''), (''input'', PInt 5)] = ?body"
    by (simp add: demo_body_def)
  have h1: "json (demo_request ?body) = Inr ?body"
    by (simp add: demo_request_def)
  have v: "validate demo_env demo_config ?body =
      Inl (RequestValidationError (PList [PStr ''messages: a list is required'']) (Some ?body))"
    by (simp add: validate_def demo_env_def demo_body_def demo_validate_def)
  have "create_run_endpoint demo_env (demo_request ?body) ''u1'' =
      (demo_lookups, Inl (RequestValidationError (PList [PStr ''messages: a list is required'']) (Some ?body)))"
    by (simp add: create_run_endpoint_resolved [OF h1 demo_gather demo_make_config] v)
  then show ?thesis
    unfolding b by (simp add: demo_lookups_def demo_body_def)
qed

text \<open>One request for each of the four keys.\<close>

theorem missing_key_KeyError_witness:
  "create_run_endpoint demo_env
     (demo_request (PDict [(''thread_id'', PStr ''t1''), (''stream'', PBool True),
        (''input'', PDict [(''messages'', PList [PStr ''m4''])])])) ''u1'' =
     ([], Inl (KeyError ''assistant_id''))
   \<and> create_run_endpoint demo_env
     (demo_request (PDict [(''assistant_id'', PStr ''a1''), (''stream'', PBool True),
        (''input'', PDict [(''messages'', PList [PStr ''m4''])])])) ''u1'' =
     ([RunInExecutor ''get_assistant'' [PStr ''u1'', PStr ''a1'']], Inl (KeyError ''thread_id''))
   \<and> create_run_endpoint demo_env
     (demo_request (PDict [(''assistant_id'', PStr ''a1''), (''thread_id'', PStr ''t1''),
        (''stream'', PBool True)])) ''u1'' =
     (demo_lookups, Inl (KeyError ''input''))
   \<and> create_run_endpoint demo_env
     (demo_request (PDict [(''assistant_id'', PStr ''a1''), (''thread_id'', PStr ''t1''),
        (''input'', PDict [(''messages'', PList [PStr ''m4''])])])) ''u1'' =
     (demo_lookups, Inl (KeyError ''stream''))"
proof -
  let ?k1 = "[(''thread_id'', PStr ''t1''), (''stream'', PBool True),
        (''input'', PDict [(''messages'', PList [PStr ''m4''])])]"
  let ?k2 = "[(''assistant_id'', PStr ''a1''), (''stream'', PBool True),
        (''input'', PDict [(''messages'', PList [PStr ''m4''])])]"
  let ?k3 = "[(''assistant_id'', PStr ''a1''), (''thread_id'', PStr ''t1''), (''stream'', PBool True)]"
  let ?k4 = "[(''assistant_id'', PStr ''a1''), (''thread_id'', PStr ''t1''),
        (''input'', PDict [(''messages'', PList [PStr ''m4''])])]"
  have j: "json (demo_request (PDict kvs)) = Inr (PDict kvs)" for kvs
    by (simp add: demo_request_def)
  have a1: "map_of ?k1 ''assistant_id'' = None"
    by simp
  have 1: "create_run_endpoint demo_env (demo_request (PDict ?k1)) ''u1'' =
      ([], Inl (KeyError ''assistant_id''))"
    by (rule missing_key_KeyError [OF j, THEN conjunct1, THEN mp, OF a1])
  have a2: "map_of ?k2 ''assistant_id'' = Some (PStr ''a1'') \<and> map_of ?k2 ''thread_id'' = None"
    by simp
  have 2: "create_run_endpoint demo_env (demo_request (PDict ?k2)) ''u1'' =
      ([RunInExecutor ''get_assistant'' [PStr ''u1'', PStr ''a1'']], Inl (KeyError ''thread_id''))"
    by (rule missing_key_KeyError [OF j, THEN conjunct2, THEN conjunct1, THEN spec, THEN mp, OF a2])
  have b3: "PDict ?k3 = demo_body [(''stream'', PBool True)]"
    by (simp add: demo_body_def)
  have a3: "gather_lookups demo_env ''u1'' (PDict ?k3) = (demo_lookups, Inr (demo_assistant, demo_state)) \<and>
      make_config demo_assistant (PDict ?k3) (demo_request (PDict ?k3)) = Inr demo_config \<and>
      get_input_schema demo_env demo_config = Inr demo_validate \<and>
      map_of ?k3 ''input'' = None"
  proof (intro conjI)
    show "gather_lookups demo_env ''u1'' (PDict ?k3) = (demo_lookups, Inr (demo_assistant, demo_state))"
      unfolding b3 by (rule demo_gather)
    show "make_config demo_assistant (PDict ?k3) (demo_request (PDict ?k3)) = Inr demo_config"
      unfolding b3 by (rule demo_make_config)
    show "get_input_schema demo_env demo_config = Inr demo_validate"
      by (simp add: demo_env_def)
    show "map_of ?k3 ''input'' = None"
      by simp
  qed
  have 3: "create_run_endpoint demo_env (demo_request (PDict ?k3)) ''u1'' =
      (demo_lookups, Inl (KeyError ''input''))"
    by (rule missing_key_KeyError [OF j, THEN conjunct2, THEN conjunct2, THEN conjunct1,
          THEN spec, THEN spec, THEN spec, THEN spec, THEN spec, THEN mp, OF a3])
  have b4: "PDict ?k4 = demo_body [(''input'', PDict [(''messages'', PList [PStr ''m4''])])]"
    by (simp add: demo_body_def)
  have v4: "validate demo_env demo_config (PDict ?k4) = Inr (PDict [(''messages'', PList [PStr ''m4''])])"
    by (simp add: validate_def demo_env_def demo_validate_def)
  have a4: "gather_lookups demo_env ''u1'' (PDict ?k4) = (demo_lookups, Inr (demo_assistant, demo_state)) \<and>
      make_config demo_assistant (PDict ?k4) (demo_request (PDict ?k4)) = Inr demo_config \<and>
      validate demo_env demo_config (PDict ?k4) = Inr (PDict [(''messages'', PList [PStr ''m4''])]) \<and>
      map_of ?k4 ''stream'' = None"
  proof (intro conjI)
    show "gather_lookups demo_env ''u1'' (PDict ?k4) = (demo_lookups, Inr (demo_assistant, demo_state))"
      unfolding b4 by (rule demo_gather)
    show "make_config demo_assistant (PDict ?k4) (demo_request (PDict ?k4)) = Inr demo_config"
      unfolding b4 by (rule demo_make_config)
    show "validate demo_env demo_config (PDict ?k4) = Inr (PDict [(''messages'', PList [PStr ''m4''])])"
      by (rule v4)
    show "map_of ?k4 ''stream'' = None"
      by simp
  qed
  have 4: "create_run_endpoint demo_env (demo_request (PDict ?k4)) ''u1'' =
      (demo_lookups, Inl (KeyError ''stream''))"
    by (rule missing_key_KeyError [OF j, THEN conjunct2, THEN conjunct2, THEN conjunct2,
          THEN spec, THEN spec, THEN spec, THEN spec, THEN spec, THEN mp, OF a4])
  from 1 2 3 4 show ?thesis by (intro conjI)
qed

end
